theory Spec2Isabelle
  imports Complex_Main
begin

section \<open>The Keycloak service of brokencrystals\<close>

text \<open>
  A shallow embedding of \<^verbatim>\<open>KeyCloakService\<close> (the class of
  \<^verbatim>\<open>src/unnamed/part_000\<close>). Every method is an \<^verbatim>\<open>async\<close> function: its
  model returns the value the promise settles with (\<open>Inl\<close> for a rejection, \<open>Inr\<close> for
  a fulfilment) together with the effects it had on its collaborators, in order.
\<close>

subsection \<open>JavaScript values written as literals in the source\<close>

text \<open>
  Object literals keep the order in which the source writes their keys. A property whose
  value is \<^verbatim>\<open>undefined\<close> stays in the object, as it does in JavaScript.
\<close>

datatype js =
    Undefined
  | Null
  | Str string
  | Num real
  | Bool bool
  | Arr "js list"
  | Obj "(string \<times> js) list"

text \<open>A value of type \<^verbatim>\<open>string | undefined\<close> read into a literal.\<close>

fun opt :: "string option \<Rightarrow> js" where
  "opt None = Undefined"
| "opt (Some s) = Str s"

subsection \<open>The interfaces of the source\<close>

record OIDCIdentityConfig =
  issuer :: "string option"
  introspection_endpoint :: "string option"
  jwks_uri :: "string option"
  token_endpoint :: "string option"

text \<open>\<^verbatim>\<open>registerUser\<close> destructures its argument: only these four properties are read.\<close>

record RegisterUserData =
  email :: string
  firstName :: string
  lastName :: string
  password :: string

text \<open>
  \<^verbatim>\<open>generateToken\<close> spreads its argument into the body of the request, so what
  matters of a \<^verbatim>\<open>GenerateTokenData\<close> is the object itself: its own properties in the
  order in which the object enumerates them, \<^verbatim>\<open>username\<close> and \<^verbatim>\<open>password\<close> among
  them, with whatever else the caller put there.
\<close>

type_synonym GenerateTokenData = "(string \<times> js) list"

text \<open>
  Writing a property into an object: a key the object has keeps its place and takes the
  new value, a new key goes to the end.
\<close>

fun set_property :: "string \<Rightarrow> js \<Rightarrow> (string \<times> js) list \<Rightarrow> (string \<times> js) list" where
  "set_property k v [] = [(k, v)]"
| "set_property k v ((k', v') # ps) =
    (if k' = k then (k', v) # ps else (k', v') # set_property k v ps)"

text \<open>
  The object an object literal evaluates to, from its properties in the order written;
  a spread \<^verbatim>\<open>...o\<close> stands for the properties of \<open>o\<close>.
\<close>

definition object_literal :: "(string \<times> js) list \<Rightarrow> (string \<times> js) list" where
  "object_literal ps = fold (\<lambda>(k, v) obj. set_property k v obj) ps []"

record Token =
  token_type :: string
  access_token :: string
  refresh_token :: "string option"
  refresh_expires_in :: real
  expires_in :: "real option"

record ClientCredentials =
  client_id :: string
  client_secret :: "string option"

text \<open>
  An entry of the key list, \<^verbatim>\<open>JWK & { kid: string }\<close>: the key identifier and the
  members of the key itself (\<^verbatim>\<open>kty\<close>, \<^verbatim>\<open>n\<close>, \<^verbatim>\<open>e\<close>, \<^verbatim>\<open>crv\<close>, ...).
\<close>

record jwk =
  kid :: string
  members :: "(string \<times> string) list"

text \<open>The JWKS document, \<^verbatim>\<open>{ keys: (JWK & { kid: string })[] }\<close>; the list may be absent.\<close>

record jwks =
  keys :: "jwk list option"

subsection \<open>Errors\<close>

text \<open>
  \<^verbatim>\<open>HttpClientService\<close> is imported from \<^verbatim>\<open>../httpclient/httpclient.service\<close>, which
  is not among the sources. Its failures are kept as an opaque value: the status the
  provider answered with, when there is one, and a message.
\<close>

datatype transport_error = TransportError (status: "nat option") (reason: string)

text \<open>
  What \<^verbatim>\<open>verify\<close> of the jsonwebtoken package throws: its own three errors, and
  whatever \<^verbatim>\<open>jws.verify\<close> throws, which it passes on.
\<close>

datatype jwt_error =
    JsonWebTokenError string
  | TokenExpiredError string
  | NotBeforeError string
  | JwsError string

text \<open>
  Everything a method of the service can reject with. \<open>TypeError p\<close> is the engine's
  error on reading property \<open>p\<close> of \<^verbatim>\<open>undefined\<close>; \<open>AssertionError\<close> is what
  \<^verbatim>\<open>ok\<close> of the \<^verbatim>\<open>assert\<close> module throws; the two exceptions are those of
  \<^verbatim>\<open>@nestjs/common\<close>; the last three are the collaborators' own errors, which the
  service never wraps.
\<close>

datatype error =
    TypeError string
  | AssertionError string
  | UnauthorizedException string
  | InternalServerErrorException string
  | JwtError jwt_error
  | JwkToPemError string
  | Transport transport_error

subsection \<open>Effects\<close>

datatype event =
    LogDebug string
  | LogError error
  | ConsoleLog string
  | ConsoleError error
  | HttpPost "string option" js js
  | HttpLoadJSON "string option"
  | JwtVerify string string js

type_synonym 'a outcome = "(error + 'a) \<times> event list"

fun is_http :: "event \<Rightarrow> bool" where
  "is_http (HttpPost url data cfg) = True"
| "is_http (HttpLoadJSON url) = True"
| "is_http e = False"

fun is_log_error :: "event \<Rightarrow> bool" where
  "is_log_error (LogError e) = True"
| "is_log_error e = False"

subsection \<open>Collaborators\<close>

text \<open>
  The service calls code that is not its own: the injected HTTP client and the packages
  \<^verbatim>\<open>jwk-to-pem\<close>, \<^verbatim>\<open>qs\<close> and \<^verbatim>\<open>jsonwebtoken\<close>. They are parameters of the model.

  Modelled from the spec: \<^verbatim>\<open>HttpClientService\<close> is missing from the sources. The spec
  gives it \<^verbatim>\<open>post(url, body, options)\<close> and a JSON getter, "both asynchronous, both
  capable of signaling transport/status errors": a failure is a rejected promise, never
  an exception thrown while the call expression is evaluated. \<^verbatim>\<open>post<T>\<close> and
  \<^verbatim>\<open>loadJSON<T>\<close> are generic, and a cast to \<open>T\<close> checks nothing, so the record has one
  field for each type the service reads a response at.
\<close>

record collaborators =
  post_Token :: "string option \<Rightarrow> js \<Rightarrow> js \<Rightarrow> transport_error + Token"
  post_unknown :: "string option \<Rightarrow> js \<Rightarrow> js \<Rightarrow> transport_error + js"
  loadJSON_config :: "string option \<Rightarrow> transport_error + OIDCIdentityConfig"
  loadJSON_jwks :: "string option \<Rightarrow> transport_error + jwks"
  jwkToPem :: "jwk \<Rightarrow> string + string"
  stringify :: "js \<Rightarrow> string"
  verify :: "string \<Rightarrow> string \<Rightarrow> js \<Rightarrow> jwt_error + js"

subsection \<open>The service and its constructor\<close>

text \<open>
  The members of \<^verbatim>\<open>KeyCloakConfigProperties\<close> that the constructor reads; the enum is
  declared outside the sources at hand. \<^verbatim>\<open>configService.get\<close> answers a key with a
  string or with \<^verbatim>\<open>undefined\<close>.
\<close>

datatype KeyCloakConfigProperties =
    ENV_KEYCLOAK_SERVER_URI
  | ENV_KEYCLOAK_REALM
  | ENV_KEYCLOAK_USER_CLIENT_ID
  | ENV_KEYCLOAK_USER_CLIENT_SECRET
  | ENV_KEYCLOAK_ADMIN_CLIENT_ID
  | ENV_KEYCLOAK_ADMIN_CLIENT_SECRET

type_synonym ConfigService = "KeyCloakConfigProperties \<Rightarrow> string option"

text \<open>
  The fields of the class. \<open>config\<close> has no initialiser: it is \<^verbatim>\<open>undefined\<close> (\<open>None\<close>)
  until \<^verbatim>\<open>discovery\<close> assigns it. A service exists only once the constructor has
  returned, so the settings it asserts are strings.
\<close>

record KeyCloakService =
  server_uri :: string
  realm :: string
  config :: "OIDCIdentityConfig option"
  clientAdmin :: ClientCredentials
  clientUser :: ClientCredentials

text \<open>JavaScript truthiness of a \<^verbatim>\<open>string | undefined\<close>: the empty string is falsy.\<close>

fun truthy :: "string option \<Rightarrow> bool" where
  "truthy None = False"
| "truthy (Some s) = (s \<noteq> [])"

text \<open>
  \<^verbatim>\<open>ok(value, message)\<close> of the \<^verbatim>\<open>assert\<close> module: it throws an AssertionError with
  the message unless the value is truthy. Past it the value is a non-empty string.
\<close>

fun ok :: "string option \<Rightarrow> string \<Rightarrow> error + string" where
  "ok None message = Inl (AssertionError message)"
| "ok (Some s) message = (if s = [] then Inl (AssertionError message) else Inr s)"

text \<open>
  The constructor reads the six settings, then asserts five of them in this order:
  the realm, the server URI, the user client id, the admin client id and the admin
  client secret. The user client secret is read and stored, never asserted. The
  last statement launches \<^verbatim>\<open>discovery\<close> without awaiting it: the constructor returns
  with \<open>config\<close> still \<^verbatim>\<open>undefined\<close>.
\<close>

definition constructor :: "ConfigService \<Rightarrow> error + KeyCloakService" where
  \<open>constructor get =
    (case ok (get ENV_KEYCLOAK_REALM) ''"realm" is not defined.'' of
       Inl e \<Rightarrow> Inl e
     | Inr the_realm \<Rightarrow>
    (case ok (get ENV_KEYCLOAK_SERVER_URI) ''"metadata_uri" is not defined.'' of
       Inl e \<Rightarrow> Inl e
     | Inr the_server_uri \<Rightarrow>
    (case ok (get ENV_KEYCLOAK_USER_CLIENT_ID) ''"client_id" is not defined.'' of
       Inl e \<Rightarrow> Inl e
     | Inr user_id \<Rightarrow>
    (case ok (get ENV_KEYCLOAK_ADMIN_CLIENT_ID) ''Admin "client_id" is not defined.'' of
       Inl e \<Rightarrow> Inl e
     | Inr admin_id \<Rightarrow>
    (case ok (get ENV_KEYCLOAK_ADMIN_CLIENT_SECRET)
            ''Admin "client_secret" is not defined.'' of
       Inl e \<Rightarrow> Inl e
     | Inr admin_secret \<Rightarrow>
         Inr \<lparr>server_uri = the_server_uri,
              realm = the_realm,
              config = None,
              clientAdmin = \<lparr>client_id = admin_id, client_secret = Some admin_secret\<rparr>,
              clientUser = \<lparr>client_id = user_id,
                            client_secret = get ENV_KEYCLOAK_USER_CLIENT_SECRET\<rparr>\<rparr>)))))\<close>

subsection \<open>Discovery\<close>

text \<open>
  \<^verbatim>\<open>discovery\<close> loads the well-known document and assigns it to \<open>config\<close>; when the
  load fails the field keeps its value and the promise rejects.
\<close>

definition discovery :: "collaborators \<Rightarrow> KeyCloakService \<Rightarrow> KeyCloakService outcome" where
  "discovery env svc =
    (let url = Some (server_uri svc @ ''/realms/'' @ realm svc
                     @ ''/.well-known/openid-configuration'')
     in case loadJSON_config env url of
          Inl e \<Rightarrow> (Inl (Transport e), [HttpLoadJSON url])
        | Inr c \<Rightarrow> (Inr (svc\<lparr>config := Some c\<rparr>), [HttpLoadJSON url]))"

text \<open>
  The service once the promise launched by the constructor has settled:
  \<^verbatim>\<open>this.discovery().catch((err: any) => console.error(err))\<close>.
\<close>

definition discovery_settled ::
  "collaborators \<Rightarrow> KeyCloakService \<Rightarrow> KeyCloakService \<times> event list" where
  "discovery_settled env svc =
    (case discovery env svc of
       (Inl e, tr) \<Rightarrow> (svc, tr @ [ConsoleError e])
     | (Inr svc', tr) \<Rightarrow> (svc', tr))"

subsection \<open>The key map\<close>

text \<open>
  \<^verbatim>\<open>data.keys.map((key) => [key.kid, jwkToPem(key)])\<close>: the entries in the order of
  the list; the first key that \<^verbatim>\<open>jwkToPem\<close> refuses ends the whole call.
\<close>

fun pem_entries :: "(jwk \<Rightarrow> string + string) \<Rightarrow> jwk list \<Rightarrow> string + (string \<times> string) list" where
  "pem_entries to_pem [] = Inr []"
| "pem_entries to_pem (key # rest) =
    (case to_pem key of
       Inl m \<Rightarrow> Inl m
     | Inr pem \<Rightarrow>
        (case pem_entries to_pem rest of
           Inl m \<Rightarrow> Inl m
         | Inr entries \<Rightarrow> Inr ((kid key, pem) # entries)))"

text \<open>
  \<^verbatim>\<open>new Map<string, string>(entries)\<close>: the constructor sets the entries one after the
  other, so a later entry replaces an earlier one with the same key.
\<close>

definition new_Map :: "(string \<times> string) list \<Rightarrow> (string \<rightharpoonup> string)" where
  "new_Map entries = fold (\<lambda>(k, v) m. m(k \<mapsto> v)) entries Map.empty"

definition getJWKs :: "collaborators \<Rightarrow> KeyCloakService \<Rightarrow> (string \<rightharpoonup> string) outcome" where
  \<open>getJWKs env svc =
    (case config svc of
       None \<Rightarrow> (Inl (TypeError ''jwks_uri''), [])
     | Some c \<Rightarrow>
        (case ok (jwks_uri c) ''Missing "jwks_uri"'' of
           Inl e \<Rightarrow> (Inl e, [])
         | Inr _ \<Rightarrow>
            (case loadJSON_jwks env (jwks_uri c) of
               Inl e \<Rightarrow> (Inl (Transport e), [HttpLoadJSON (jwks_uri c)])
             | Inr data \<Rightarrow>
                (case keys data of
                   None \<Rightarrow>
                     (Inl (InternalServerErrorException
                             ''Internal error occurred downloading JWKS data.''),
                      [HttpLoadJSON (jwks_uri c)])
                 | Some ks \<Rightarrow>
                    (case pem_entries (jwkToPem env) ks of
                       Inl m \<Rightarrow> (Inl (JwkToPemError m), [HttpLoadJSON (jwks_uri c)])
                     | Inr entries \<Rightarrow>
                         (Inr (new_Map entries), [HttpLoadJSON (jwks_uri c)]))))))\<close>

subsection \<open>Token verification\<close>

text \<open>
  The options handed to \<^verbatim>\<open>verify\<close> are the literal \<^verbatim>\<open>{ issuer: this.config.issuer }\<close>.
  What \<^verbatim>\<open>verify\<close> throws is not caught.
\<close>

definition verifyToken ::
  "collaborators \<Rightarrow> KeyCloakService \<Rightarrow> string \<Rightarrow> string \<Rightarrow> js outcome" where
  "verifyToken env svc token key_id =
    (case getJWKs env svc of
       (Inl e, tr) \<Rightarrow> (Inl e, tr)
     | (Inr pems, tr) \<Rightarrow>
        (case pems key_id of
           None \<Rightarrow>
             (Inl (UnauthorizedException
                     ''Authorization header contains an invalid JWT token.''), tr)
         | Some pem \<Rightarrow>
            (case config svc of
               None \<Rightarrow> (Inl (TypeError ''issuer''), tr)
             | Some c \<Rightarrow>
                (let options = Obj [(''issuer'', opt (issuer c))]
                 in case verify env token pem options of
                      Inl e \<Rightarrow> (Inl (JwtError e), tr @ [JwtVerify token pem options])
                    | Inr claims \<Rightarrow> (Inr claims, tr @ [JwtVerify token pem options])))))"

subsection \<open>Token requests\<close>

text \<open>
  \<^verbatim>\<open>generateToken\<close> builds the form body, prints it, and returns the promise of
  \<^verbatim>\<open>httpClient.post\<close> from inside a \<^verbatim>\<open>try\<close> block without awaiting it. The
  \<^verbatim>\<open>catch\<close> clause therefore sees only what is thrown while the call expression is
  evaluated, which is the TypeError of reading \<^verbatim>\<open>token_endpoint\<close> from an undefined
  \<open>config\<close>; a rejection of the returned promise passes to the caller without
  reaching \<^verbatim>\<open>this.log.error\<close>. No statement checks \<^verbatim>\<open>token_endpoint\<close>: the value
  read, absent or not, is the URL of the request.
\<close>

definition token_request_options :: js where
  "token_request_options =
    Obj [(''headers'', Obj [(''Content-Type'', Str ''application/x-www-form-urlencoded'')]),
         (''responseType'', Str ''json'')]"

definition token_request_body ::
  "collaborators \<Rightarrow> KeyCloakService \<Rightarrow> GenerateTokenData option \<Rightarrow> string" where
  "token_request_body env svc tokenData =
    (case tokenData of
       Some td \<Rightarrow>
         stringify env
           (Obj (object_literal
              (td @
               [(''grant_type'', Str ''password''),
                (''client_id'', Str (client_id (clientUser svc))),
                (''client_secret'', opt (client_secret (clientUser svc)))])))
     | None \<Rightarrow>
         stringify env
           (Obj [(''grant_type'', Str ''client_credentials''),
                 (''client_id'', Str (client_id (clientAdmin svc))),
                 (''client_secret'', opt (client_secret (clientAdmin svc)))]))"

definition generateToken ::
  "collaborators \<Rightarrow> KeyCloakService \<Rightarrow> GenerateTokenData option \<Rightarrow> Token outcome" where
  "generateToken env svc tokenData =
    (let data = token_request_body env svc tokenData
     in case config svc of
          None \<Rightarrow>
            (Inl (TypeError ''token_endpoint''),
             [ConsoleLog data, LogError (TypeError ''token_endpoint'')])
        | Some c \<Rightarrow>
           (case post_Token env (token_endpoint c) (Str data) token_request_options of
              Inl e \<Rightarrow>
                (Inl (Transport e),
                 [ConsoleLog data,
                  HttpPost (token_endpoint c) (Str data) token_request_options])
            | Inr t \<Rightarrow>
                (Inr t,
                 [ConsoleLog data,
                  HttpPost (token_endpoint c) (Str data) token_request_options])))"

subsection \<open>Introspection\<close>

definition introspectToken ::
  "collaborators \<Rightarrow> KeyCloakService \<Rightarrow> string \<Rightarrow> js outcome" where
  \<open>introspectToken env svc token =
    (case config svc of
       None \<Rightarrow> (Inl (TypeError ''introspection_endpoint''), [])
     | Some c \<Rightarrow>
        (case ok (introspection_endpoint c) ''Missing "introspection_endpoint"'' of
           Inl e \<Rightarrow> (Inl e, [])
         | Inr _ \<Rightarrow>
            (case generateToken env svc None of
               (Inl e, tr) \<Rightarrow> (Inl e, tr)
             | (Inr t, tr) \<Rightarrow>
                (let data = stringify env (Obj [(''token'', Str token)]);
                     options =
                       Obj [(''headers'',
                             Obj [(''Authorization'',
                                   Str (token_type t @ '' '' @ access_token t)),
                                  (''Content-Type'',
                                   Str ''application/x-www-form-urlencoded'')])];
                     request = HttpPost (introspection_endpoint c) (Str data) options
                 in case post_unknown env (introspection_endpoint c) (Str data) options of
                      Inl e \<Rightarrow> (Inl (Transport e), tr @ [request])
                    | Inr r \<Rightarrow> (Inr r, tr @ [request])))))\<close>

subsection \<open>User registration\<close>

text \<open>
  The token is awaited outside the \<^verbatim>\<open>try\<close> block; the POST to the admin API is
  awaited inside it, so its rejection is logged and thrown again.
\<close>

definition user_representation :: "RegisterUserData \<Rightarrow> js" where
  "user_representation d =
    Obj [(''firstName'', Str (firstName d)),
         (''lastName'', Str (lastName d)),
         (''email'', Str (email d)),
         (''enabled'', Bool True),
         (''username'', Str (email d)),
         (''credentials'',
          Arr [Obj [(''type'', Str ''password''),
                    (''value'', Str (password d)),
                    (''temporary'', Bool False)]])]"

definition registerUser ::
  "collaborators \<Rightarrow> KeyCloakService \<Rightarrow> RegisterUserData \<Rightarrow> unit outcome" where
  "registerUser env svc d =
    (case generateToken env svc None of
       (Inl e, tr) \<Rightarrow> (Inl e, LogDebug ''Called registerUser'' # tr)
     | (Inr t, tr) \<Rightarrow>
        (let authorization = token_type t @ '' '' @ access_token t;
             url = Some (server_uri svc @ ''/admin/realms/'' @ realm svc @ ''/users'');
             options =
               Obj [(''headers'',
                     Obj [(''Content-Type'', Str ''application/json''),
                          (''Authorization'', Str authorization)]),
                    (''responseType'', Str ''json'')];
             request = HttpPost url (user_representation d) options;
             before = LogDebug ''Called registerUser'' # tr @ [ConsoleLog authorization]
         in case post_unknown env url (user_representation d) options of
              Inl e \<Rightarrow> (Inl (Transport e), before @ [request, LogError (Transport e)])
            | Inr r \<Rightarrow> (Inr (), before @ [request])))"

subsection \<open>The verify of jsonwebtoken\<close>

text \<open>
  \<^verbatim>\<open>verifyToken\<close> leaves every check of the token to \<^verbatim>\<open>verify\<close> of the
  jsonwebtoken package, called with the token, the PEM and the options
  \<^verbatim>\<open>{ issuer }\<close>, without a callback. The package is not part of the sources. The
  definitions below follow its \<^verbatim>\<open>verify.js\<close> (version 8.5.1) for such a call: a
  string key and, of the options, \<^verbatim>\<open>algorithms\<close> (an array of names) and
  \<^verbatim>\<open>issuer\<close> (a string); the other options are in no call the service makes and are
  read as absent. Reading the token string (the split at the dots, base64url and JSON)
  and the cryptographic check of \<^verbatim>\<open>jws.verify\<close> are parameters.
\<close>

text \<open>A claim that holds a date: absent, not a number, or seconds since the epoch.\<close>

datatype numeric_date = Absent | NotANumber | Seconds real

text \<open>
  What \<^verbatim>\<open>verify\<close> reads off a token: the \<^verbatim>\<open>alg\<close> of the header, whether the
  third part is non-blank, the claims it checks (an \<^verbatim>\<open>iss\<close> that is no string
  compares unequal to every string, like an absent one), and the payload it returns.
\<close>

record decoded_jwt =
  header_alg :: "string option"
  has_signature :: bool
  payload_nbf :: numeric_date
  payload_exp :: numeric_date
  payload_iss :: "string option"
  payload :: js

text \<open>
  \<open>read_token\<close> is the reading of the token string, which fails with
  \<^verbatim>\<open>jwt must be provided\<close>, \<^verbatim>\<open>jwt malformed\<close> or \<^verbatim>\<open>invalid token\<close>;
  \<open>jws_verify\<close> is \<^verbatim>\<open>jws.verify(jwtString, header.alg, key)\<close>; \<open>clockTimestamp\<close>
  is the time of the call in seconds.
\<close>

record jwt_library =
  read_token :: "string \<Rightarrow> jwt_error + decoded_jwt"
  jws_verify :: "string \<Rightarrow> string option \<Rightarrow> string \<Rightarrow> jwt_error + bool"
  clockTimestamp :: real

definition PUB_KEY_ALGS :: "string list" where
  "PUB_KEY_ALGS =
    [''RS256'', ''RS384'', ''RS512'', ''PS256'', ''PS384'', ''PS512'',
     ''ES256'', ''ES384'', ''ES512'']"

definition RSA_KEY_ALGS :: "string list" where
  "RSA_KEY_ALGS = [''RS256'', ''RS384'', ''RS512'', ''PS256'', ''PS384'', ''PS512'']"

definition HS_ALGS :: "string list" where
  "HS_ALGS = [''HS256'', ''HS384'', ''HS512'']"

text \<open>\<^verbatim>\<open>s.indexOf(p) !== -1\<close>: the string \<open>p\<close> occurs in \<open>s\<close>.\<close>

fun starts_with :: "string \<Rightarrow> string \<Rightarrow> bool" where
  "starts_with s [] = True"
| "starts_with [] (c # p) = False"
| "starts_with (x # s) (c # p) = (x = c \<and> starts_with s p)"

fun has_substring :: "string \<Rightarrow> string \<Rightarrow> bool" where
  "has_substring [] p = (p = [])"
| "has_substring (x # s) p = (starts_with (x # s) p \<or> has_substring s p)"

text \<open>
  The algorithms \<^verbatim>\<open>verify\<close> allows when the options name none: it goes by the key,
  never by the header of the token.
\<close>

definition default_algorithms :: "string \<Rightarrow> string list" where
  "default_algorithms key =
    (if has_substring key ''BEGIN CERTIFICATE'' \<or> has_substring key ''BEGIN PUBLIC KEY''
       then PUB_KEY_ALGS
     else if has_substring key ''BEGIN RSA PUBLIC KEY'' then RSA_KEY_ALGS
     else HS_ALGS)"

text \<open>Reading a property of an options object.\<close>

fun property :: "js \<Rightarrow> string \<Rightarrow> js" where
  "property (Obj kvs) k = (case map_of kvs k of None \<Rightarrow> Undefined | Some v \<Rightarrow> v)"
| "property v k = Undefined"

fun string_elements :: "js list \<Rightarrow> string list" where
  "string_elements [] = []"
| "string_elements (Str s # vs) = s # string_elements vs"
| "string_elements (v # vs) = string_elements vs"

definition allowed_algorithms :: "js \<Rightarrow> string \<Rightarrow> decoded_jwt \<Rightarrow> string list" where
  "allowed_algorithms options key t =
    (case property options ''algorithms'' of
       Arr vs \<Rightarrow> string_elements vs
     | _ \<Rightarrow> if \<not> has_signature t then [''none''] else default_algorithms key)"

text \<open>\<^verbatim>\<open>algorithms.indexOf(header.alg) !== -1\<close>.\<close>

fun algorithm_allowed :: "string option \<Rightarrow> string list \<Rightarrow> bool" where
  "algorithm_allowed None algorithms = False"
| "algorithm_allowed (Some a) algorithms = (a \<in> set algorithms)"

text \<open>
  The checks up to the signature, in the order of \<^verbatim>\<open>verify.js\<close>; \<open>None\<close> when
  they pass. The algorithm is checked before \<^verbatim>\<open>jws.verify\<close> is called.
\<close>

definition signature_check ::
  "jwt_library \<Rightarrow> string \<Rightarrow> string \<Rightarrow> js \<Rightarrow> decoded_jwt \<Rightarrow> jwt_error option" where
  "signature_check lib jwtString key options t =
    (if \<not> has_signature t \<and> key \<noteq> []
       then Some (JsonWebTokenError ''jwt signature is required'')
     else if has_signature t \<and> key = []
       then Some (JsonWebTokenError ''secret or public key must be provided'')
     else if \<not> algorithm_allowed (header_alg t) (allowed_algorithms options key t)
       then Some (JsonWebTokenError ''invalid algorithm'')
     else
       (case jws_verify lib jwtString (header_alg t) key of
          Inl e \<Rightarrow> Some e
        | Inr valid \<Rightarrow>
            if valid then None else Some (JsonWebTokenError ''invalid signature'')))"

text \<open>The checks of \<^verbatim>\<open>nbf\<close> and \<^verbatim>\<open>exp\<close>, with no clock tolerance.\<close>

definition expiry_check :: "jwt_library \<Rightarrow> decoded_jwt \<Rightarrow> jwt_error option" where
  "expiry_check lib t =
    (case payload_exp t of
       Absent \<Rightarrow> None
     | NotANumber \<Rightarrow> Some (JsonWebTokenError ''invalid exp value'')
     | Seconds e \<Rightarrow>
         if clockTimestamp lib \<ge> e then Some (TokenExpiredError ''jwt expired'') else None)"

definition time_check :: "jwt_library \<Rightarrow> decoded_jwt \<Rightarrow> jwt_error option" where
  "time_check lib t =
    (case payload_nbf t of
       Absent \<Rightarrow> expiry_check lib t
     | NotANumber \<Rightarrow> Some (JsonWebTokenError ''invalid nbf value'')
     | Seconds n \<Rightarrow>
         if n > clockTimestamp lib then Some (NotBeforeError ''jwt not active'')
         else expiry_check lib t)"

text \<open>
  \<^verbatim>\<open>if (options.issuer)\<close>: an absent or empty issuer option switches the check off.
\<close>

definition issuer_check :: "js \<Rightarrow> decoded_jwt \<Rightarrow> jwt_error option" where
  "issuer_check options t =
    (case property options ''issuer'' of
       Str expected \<Rightarrow>
         if expected \<noteq> [] \<and> payload_iss t \<noteq> Some expected
           then Some (JsonWebTokenError (''jwt issuer invalid. expected: '' @ expected))
         else None
     | _ \<Rightarrow> None)"

definition jsonwebtoken_verify ::
  "jwt_library \<Rightarrow> string \<Rightarrow> string \<Rightarrow> js \<Rightarrow> jwt_error + js" where
  "jsonwebtoken_verify lib jwtString key options =
    (case read_token lib jwtString of
       Inl e \<Rightarrow> Inl e
     | Inr t \<Rightarrow>
        (case signature_check lib jwtString key options t of
           Some e \<Rightarrow> Inl e
         | None \<Rightarrow>
            (case time_check lib t of
               Some e \<Rightarrow> Inl e
             | None \<Rightarrow>
                (case issuer_check options t of
                   Some e \<Rightarrow> Inl e
                 | None \<Rightarrow> Inr (payload t)))))"

text \<open>
  A public key in PEM form, as \<^verbatim>\<open>jwkToPem\<close> returns for a key without private
  members: one of the three labels by which \<^verbatim>\<open>verify\<close> tells a public key.
\<close>

definition is_public_key_pem :: "string \<Rightarrow> bool" where
  "is_public_key_pem pem =
    (has_substring pem ''BEGIN CERTIFICATE'' \<or> has_substring pem ''BEGIN PUBLIC KEY''
     \<or> has_substring pem ''BEGIN RSA PUBLIC KEY'')"

subsection \<open>Observations on a run\<close>

text \<open>
  Whether an options object names the algorithms that \<^verbatim>\<open>verify\<close> may accept.
\<close>

fun pins_algorithms :: "js \<Rightarrow> bool" where
  "pins_algorithms (Obj kvs) =
    (case map_of kvs ''algorithms'' of None \<Rightarrow> False | Some Undefined \<Rightarrow> False | Some v \<Rightarrow> True)"
| "pins_algorithms v = False"

text \<open>The options of the calls to \<^verbatim>\<open>verify\<close> in a trace.\<close>

fun verify_calls :: "event list \<Rightarrow> js list" where
  "verify_calls [] = []"
| "verify_calls (JwtVerify token pem options # tr) = options # verify_calls tr"
| "verify_calls (e # tr) = verify_calls tr"


section \<open>Example runs\<close>

text \<open>
  Concrete settings, collaborators and services, on which the theorems below are
  evaluated. The provider is \<^verbatim>\<open>https://idp.example\<close>, the realm \<^verbatim>\<open>demo\<close>.
\<close>

definition demo_settings :: ConfigService where
  "demo_settings key =
    (case key of
       ENV_KEYCLOAK_SERVER_URI \<Rightarrow> Some ''https://idp.example''
     | ENV_KEYCLOAK_REALM \<Rightarrow> Some ''demo''
     | ENV_KEYCLOAK_USER_CLIENT_ID \<Rightarrow> Some ''web''
     | ENV_KEYCLOAK_USER_CLIENT_SECRET \<Rightarrow> Some ''web-secret''
     | ENV_KEYCLOAK_ADMIN_CLIENT_ID \<Rightarrow> Some ''admin-cli''
     | ENV_KEYCLOAK_ADMIN_CLIENT_SECRET \<Rightarrow> Some ''admin-secret'')"

definition settings_without_user_secret :: ConfigService where
  "settings_without_user_secret = demo_settings(ENV_KEYCLOAK_USER_CLIENT_SECRET := None)"

definition settings_without_admin_secret :: ConfigService where
  "settings_without_admin_secret = demo_settings(ENV_KEYCLOAK_ADMIN_CLIENT_SECRET := None)"

text \<open>The service as the constructor leaves it: discovery has not assigned \<open>config\<close>.\<close>

definition fresh_service :: KeyCloakService where
  "fresh_service =
    \<lparr>server_uri = ''https://idp.example'',
     realm = ''demo'',
     config = None,
     clientAdmin = \<lparr>client_id = ''admin-cli'', client_secret = Some ''admin-secret''\<rparr>,
     clientUser = \<lparr>client_id = ''web'', client_secret = Some ''web-secret''\<rparr>\<rparr>"

definition demo_config :: OIDCIdentityConfig where
  "demo_config =
    \<lparr>issuer = Some ''https://idp.example/realms/demo'',
     introspection_endpoint = Some ''https://idp.example/realms/demo/introspect'',
     jwks_uri = Some ''https://idp.example/realms/demo/certs'',
     token_endpoint = Some ''https://idp.example/realms/demo/token''\<rparr>"

definition demo_service :: KeyCloakService where
  "demo_service = fresh_service\<lparr>config := Some demo_config\<rparr>"


text \<open>A discovery document that came without a token endpoint.\<close>

definition service_without_token_endpoint :: KeyCloakService where
  "service_without_token_endpoint =
    fresh_service\<lparr>config := Some (demo_config\<lparr>token_endpoint := None\<rparr>)\<rparr>"

definition demo_token :: Token where
  "demo_token =
    \<lparr>token_type = ''Bearer'',
     access_token = ''admin.access.token'',
     refresh_token = None,
     refresh_expires_in = 0,
     expires_in = Some 300\<rparr>"

definition demo_user :: RegisterUserData where
  "demo_user =
    \<lparr>email = ''a@b.com'', firstName = ''A'', lastName = ''B'',
     password = ''p''\<rparr>"

definition demo_login :: GenerateTokenData where
  "demo_login = [(''username'', Str ''alice''), (''password'', Str ''wonderland'')]"

text \<open>The same credentials in an object built the other way round.\<close>

definition demo_login_reversed :: GenerateTokenData where
  "demo_login_reversed = [(''password'', Str ''wonderland''), (''username'', Str ''alice'')]"

text \<open>
  A stand-in for \<^verbatim>\<open>qs.stringify\<close> on flat objects whose strings need no escaping:
  \<^verbatim>\<open>key=value\<close> pairs joined by \<^verbatim>\<open>&\<close>, undefined values left out.
\<close>

fun plain_pairs :: "(string \<times> js) list \<Rightarrow> string list" where
  "plain_pairs [] = []"
| "plain_pairs ((k, Str v) # kvs) = (k @ ''='' @ v) # plain_pairs kvs"
| "plain_pairs (kv # kvs) = plain_pairs kvs"

fun join_amp :: "string list \<Rightarrow> string" where
  "join_amp [] = []"
| "join_amp [x] = x"
| "join_amp (x # y # ys) = x @ ''&'' @ join_amp (y # ys)"

fun demo_stringify :: "js \<Rightarrow> string" where
  "demo_stringify (Obj kvs) = join_amp (plain_pairs kvs)"
| "demo_stringify v = []"

text \<open>Three published keys; the first and the last share the identifier \<^verbatim>\<open>kid1\<close>.\<close>

definition key_A :: jwk where
  "key_A = \<lparr>kid = ''kid1'', members = [(''kty'', ''RSA''), (''n'', ''AAA''), (''e'', ''AQAB'')]\<rparr>"

definition key_B :: jwk where
  "key_B = \<lparr>kid = ''kid2'', members = [(''kty'', ''RSA''), (''n'', ''BBB''), (''e'', ''AQAB'')]\<rparr>"

definition key_C :: jwk where
  "key_C = \<lparr>kid = ''kid1'', members = [(''kty'', ''RSA''), (''n'', ''CCC''), (''e'', ''AQAB'')]\<rparr>"

text \<open>
  A stand-in for \<^verbatim>\<open>jwkToPem\<close>: a PEM with the label of a public key, its body the
  modulus.
\<close>

definition demo_jwkToPem :: "jwk \<Rightarrow> string + string" where
  "demo_jwkToPem key =
    (case map_of (members key) ''n'' of
       None \<Rightarrow> Inl ''Unsupported key type''
     | Some n \<Rightarrow> Inr (''-----BEGIN PUBLIC KEY-----'' @ n @ ''-----END PUBLIC KEY-----''))"

definition pem_A :: string where
  "pem_A = ''-----BEGIN PUBLIC KEY-----AAA-----END PUBLIC KEY-----''"

definition pem_B :: string where
  "pem_B = ''-----BEGIN PUBLIC KEY-----BBB-----END PUBLIC KEY-----''"

definition pem_C :: string where
  "pem_C = ''-----BEGIN PUBLIC KEY-----CCC-----END PUBLIC KEY-----''"

text \<open>
  Three tokens, all of them unexpired. \<^verbatim>\<open>rs256.demo\<close> is a token of the realm;
  \<^verbatim>\<open>rs256.other\<close> names another realm as its issuer; \<^verbatim>\<open>hs256.forged\<close> declares
  HS256 in its header and is signed with the text of the public key as the secret.
\<close>

definition demo_read_token :: "string \<Rightarrow> jwt_error + decoded_jwt" where
  "demo_read_token token =
    (if token = ''rs256.demo'' then
       Inr \<lparr>header_alg = Some ''RS256'', has_signature = True, payload_nbf = Absent,
            payload_exp = Seconds 2000000000,
            payload_iss = Some ''https://idp.example/realms/demo'',
            payload = Obj [(''iss'', Str ''https://idp.example/realms/demo'')]\<rparr>
     else if token = ''rs256.other'' then
       Inr \<lparr>header_alg = Some ''RS256'', has_signature = True, payload_nbf = Absent,
            payload_exp = Seconds 2000000000,
            payload_iss = Some ''https://idp.example/realms/other'',
            payload = Obj [(''iss'', Str ''https://idp.example/realms/other'')]\<rparr>
     else if token = ''hs256.forged'' then
       Inr \<lparr>header_alg = Some ''HS256'', has_signature = True, payload_nbf = Absent,
            payload_exp = Seconds 2000000000,
            payload_iss = Some ''https://idp.example/realms/demo'',
            payload = Obj [(''iss'', Str ''https://idp.example/realms/demo'')]\<rparr>
     else Inl (JsonWebTokenError ''jwt malformed''))"

text \<open>
  Every signature checks against the first key: the two RS256 tokens under RS256, the
  forged one under HS256 with the PEM text as the secret.
\<close>

definition demo_jws_verify :: "string \<Rightarrow> string option \<Rightarrow> string \<Rightarrow> jwt_error + bool" where
  "demo_jws_verify token algorithm key =
    Inr (key = pem_A \<and>
         ((token = ''rs256.demo'' \<and> algorithm = Some ''RS256'')
          \<or> (token = ''rs256.other'' \<and> algorithm = Some ''RS256'')
          \<or> (token = ''hs256.forged'' \<and> algorithm = Some ''HS256'')))"

definition demo_library :: jwt_library where
  "demo_library =
    \<lparr>read_token = demo_read_token, jws_verify = demo_jws_verify,
     clockTimestamp = 1700000000\<rparr>"

text \<open>A provider that answers every request; a request without a URL fails in transport.\<close>

definition demo_env :: collaborators where
  "demo_env =
    \<lparr>post_Token =
       (\<lambda>url data options.
          case url of
            None \<Rightarrow> Inl (TransportError None ''Invalid URL'')
          | Some u \<Rightarrow> Inr demo_token),
     post_unknown =
       (\<lambda>url data options.
          case url of
            None \<Rightarrow> Inl (TransportError None ''Invalid URL'')
          | Some u \<Rightarrow> Inr (Obj [(''active'', Bool True)])),
     loadJSON_config = (\<lambda>url. Inr demo_config),
     loadJSON_jwks = (\<lambda>url. Inr \<lparr>keys = Some [key_A, key_B]\<rparr>),
     jwkToPem = demo_jwkToPem,
     stringify = demo_stringify,
     verify = jsonwebtoken_verify demo_library\<rparr>"

text \<open>The same provider publishing \<^verbatim>\<open>kid1\<close> twice.\<close>

definition env_duplicate_kid :: collaborators where
  "env_duplicate_kid =
    demo_env\<lparr>loadJSON_jwks := (\<lambda>url. Inr \<lparr>keys = Some [key_A, key_B, key_C]\<rparr>)\<rparr>"

text \<open>The same provider refusing every token request.\<close>

definition env_token_refused :: collaborators where
  "env_token_refused =
    demo_env\<lparr>post_Token :=
      (\<lambda>url data options. Inl (TransportError (Some 401) ''Unauthorized''))\<rparr>"

section \<open>Properties\<close>

subsection \<open>Construction\<close>

lemma ok_if: "ok v message = (if truthy v then Inr (the v) else Inl (AssertionError message))"
  by (cases v) auto

lemma constructor_demo: "constructor demo_settings = Inr fresh_service"
  by (simp add: constructor_def demo_settings_def fresh_service_def)

text \<open>
  Claim C9, as the constructor has it. For every configuration: the first of the realm,
  the server URI, the user client id, the admin client id and the admin client secret
  that is undefined or empty makes the construction fail with the AssertionError of
  its assertion; when the five are present the constructor returns the service, with
  \<open>config\<close> undefined and the user client secret stored as it was read, present or
  not.
\<close>

theorem constructor_outcome:
  \<open>(\<not> truthy (get ENV_KEYCLOAK_REALM) \<longrightarrow>
      constructor get = Inl (AssertionError ''"realm" is not defined.''))
   \<and> (truthy (get ENV_KEYCLOAK_REALM) \<and> \<not> truthy (get ENV_KEYCLOAK_SERVER_URI) \<longrightarrow>
      constructor get = Inl (AssertionError ''"metadata_uri" is not defined.''))
   \<and> (truthy (get ENV_KEYCLOAK_REALM) \<and> truthy (get ENV_KEYCLOAK_SERVER_URI)
       \<and> \<not> truthy (get ENV_KEYCLOAK_USER_CLIENT_ID) \<longrightarrow>
      constructor get = Inl (AssertionError ''"client_id" is not defined.''))
   \<and> (truthy (get ENV_KEYCLOAK_REALM) \<and> truthy (get ENV_KEYCLOAK_SERVER_URI)
       \<and> truthy (get ENV_KEYCLOAK_USER_CLIENT_ID)
       \<and> \<not> truthy (get ENV_KEYCLOAK_ADMIN_CLIENT_ID) \<longrightarrow>
      constructor get = Inl (AssertionError ''Admin "client_id" is not defined.''))
   \<and> (truthy (get ENV_KEYCLOAK_REALM) \<and> truthy (get ENV_KEYCLOAK_SERVER_URI)
       \<and> truthy (get ENV_KEYCLOAK_USER_CLIENT_ID)
       \<and> truthy (get ENV_KEYCLOAK_ADMIN_CLIENT_ID)
       \<and> \<not> truthy (get ENV_KEYCLOAK_ADMIN_CLIENT_SECRET) \<longrightarrow>
      constructor get = Inl (AssertionError ''Admin "client_secret" is not defined.''))
   \<and> (truthy (get ENV_KEYCLOAK_REALM) \<and> truthy (get ENV_KEYCLOAK_SERVER_URI)
       \<and> truthy (get ENV_KEYCLOAK_USER_CLIENT_ID)
       \<and> truthy (get ENV_KEYCLOAK_ADMIN_CLIENT_ID)
       \<and> truthy (get ENV_KEYCLOAK_ADMIN_CLIENT_SECRET) \<longrightarrow>
      constructor get =
        Inr \<lparr>server_uri = the (get ENV_KEYCLOAK_SERVER_URI),
             realm = the (get ENV_KEYCLOAK_REALM),
             config = None,
             clientAdmin =
               \<lparr>client_id = the (get ENV_KEYCLOAK_ADMIN_CLIENT_ID),
                client_secret = get ENV_KEYCLOAK_ADMIN_CLIENT_SECRET\<rparr>,
             clientUser =
               \<lparr>client_id = the (get ENV_KEYCLOAK_USER_CLIENT_ID),
                client_secret = get ENV_KEYCLOAK_USER_CLIENT_SECRET\<rparr>\<rparr>)\<close>
proof -
  have admin: "truthy v \<Longrightarrow> Some (the v) = v" for v
    by (cases v) auto
  show ?thesis
    by (simp add: constructor_def ok_if admin)
qed

theorem constructor_outcome_witness:
  \<open>constructor (demo_settings(ENV_KEYCLOAK_REALM := None)) =
     Inl (AssertionError ''"realm" is not defined.'')
   \<and> constructor (demo_settings(ENV_KEYCLOAK_SERVER_URI := Some [])) =
     Inl (AssertionError ''"metadata_uri" is not defined.'')
   \<and> constructor (demo_settings(ENV_KEYCLOAK_USER_CLIENT_ID := None)) =
     Inl (AssertionError ''"client_id" is not defined.'')
   \<and> constructor (demo_settings(ENV_KEYCLOAK_ADMIN_CLIENT_ID := None)) =
     Inl (AssertionError ''Admin "client_id" is not defined.'')
   \<and> constructor settings_without_admin_secret =
     Inl (AssertionError ''Admin "client_secret" is not defined.'')
   \<and> constructor (demo_settings(ENV_KEYCLOAK_USER_CLIENT_SECRET := Some [])) =
     Inr (fresh_service\<lparr>clientUser := \<lparr>client_id = ''web'', client_secret = Some []\<rparr>\<rparr>)\<close>
  using constructor_outcome [of "demo_settings(ENV_KEYCLOAK_REALM := None)"]
    constructor_outcome [of "demo_settings(ENV_KEYCLOAK_SERVER_URI := Some [])"]
    constructor_outcome [of "demo_settings(ENV_KEYCLOAK_USER_CLIENT_ID := None)"]
    constructor_outcome [of "demo_settings(ENV_KEYCLOAK_ADMIN_CLIENT_ID := None)"]
    constructor_outcome [of settings_without_admin_secret]
    constructor_outcome [of "demo_settings(ENV_KEYCLOAK_USER_CLIENT_SECRET := Some [])"]
  by (simp add: settings_without_admin_secret_def demo_settings_def fresh_service_def)

text \<open>
  Claim C9 as the spec words it fails: with the user client secret missing, the
  constructor returns a service.
\<close>

theorem constructor_without_user_secret:
  "settings_without_user_secret ENV_KEYCLOAK_USER_CLIENT_SECRET = None \<and>
   constructor settings_without_user_secret =
     Inr (fresh_service\<lparr>clientUser := \<lparr>client_id = ''web'', client_secret = None\<rparr>\<rparr>)"
  by (simp add: constructor_def settings_without_user_secret_def demo_settings_def
      fresh_service_def)

text \<open>A discovery that fails is reported on the console and leaves \<open>config\<close> as it was.\<close>

lemma discovery_settled_failure:
  assumes "loadJSON_config env
             (Some (server_uri svc @ ''/realms/'' @ realm svc
                    @ ''/.well-known/openid-configuration'')) = Inl e"
  shows "fst (discovery_settled env svc) = svc
       \<and> filter is_http (snd (discovery_settled env svc)) =
           [HttpLoadJSON (Some (server_uri svc @ ''/realms/'' @ realm svc
                                @ ''/.well-known/openid-configuration''))]"
  using assms by (simp add: discovery_settled_def discovery_def)

subsection \<open>The key map\<close>

lemma fold_set_entries:
  "fold (\<lambda>(k, v) m. m(k \<mapsto> v)) entries m = m ++ map_of (rev entries)"
proof (induction entries arbitrary: m)
  case Nil
  show ?case by simp
next
  case (Cons entry entries)
  obtain k v where entry: "entry = (k, v)" by (cases entry)
  have "fold (\<lambda>(k, v) m. m(k \<mapsto> v)) (entry # entries) m
          = fold (\<lambda>(k, v) m. m(k \<mapsto> v)) entries (m(k \<mapsto> v))"
    by (simp add: entry)
  also have "\<dots> = m(k \<mapsto> v) ++ map_of (rev entries)"
    by (rule Cons.IH)
  also have "\<dots> = m ++ map_of (rev (entry # entries))"
    by (simp add: entry fun_eq_iff map_add_def split: option.splits)
  finally show ?case .
qed

lemma new_Map_map_of: "new_Map entries = map_of (rev entries)"
  by (simp add: new_Map_def fold_set_entries)

lemma pem_entries_kids: "pem_entries to_pem ks = Inr entries \<Longrightarrow> map fst entries = map kid ks"
  by (induction ks arbitrary: entries) (auto split: sum.splits)

lemma new_Map_absent:
  assumes "pem_entries to_pem ks = Inr entries" and "filter (\<lambda>k. kid k = i) ks = []"
  shows "new_Map entries i = None"
proof -
  have "i \<notin> kid ` set ks"
    using assms(2) by (auto simp: filter_empty_conv)
  then have "i \<notin> fst ` set (rev entries)"
    using pem_entries_kids [OF assms(1)] by (metis set_map set_rev)
  then show ?thesis
    by (simp add: new_Map_map_of map_of_eq_None_iff)
qed

lemma new_Map_last:
  "pem_entries to_pem ks = Inr entries \<Longrightarrow> filter (\<lambda>k. kid k = i) ks \<noteq> [] \<Longrightarrow>
   \<exists>pem. to_pem (last (filter (\<lambda>k. kid k = i) ks)) = Inr pem \<and> new_Map entries i = Some pem"
proof (induction ks arbitrary: entries)
  case Nil
  then show ?case by simp
next
  case (Cons key rest)
  from Cons.prems(1) obtain pem0 entries' where
    key: "to_pem key = Inr pem0" and rest: "pem_entries to_pem rest = Inr entries'"
    and entries: "entries = (kid key, pem0) # entries'"
    by (auto split: sum.splits)
  show ?case
  proof (cases "filter (\<lambda>k. kid k = i) rest = []")
    case True
    with Cons.prems(2) have "kid key = i" by (auto split: if_splits)
    moreover have "new_Map entries' i = None" by (rule new_Map_absent [OF rest True])
    ultimately show ?thesis
      using True key entries by (simp add: new_Map_map_of map_add_def)
  next
    case False
    from Cons.IH [OF rest False] obtain pem where
      "to_pem (last (filter (\<lambda>k. kid k = i) rest)) = Inr pem" "new_Map entries' i = Some pem"
      by blast
    then show ?thesis
      using False entries by (simp add: new_Map_map_of map_add_def)
  qed
qed

lemma getJWKs_Inr:
  assumes "getJWKs env svc = (Inr pems, tr)"
    and "config svc = Some c" and "loadJSON_jwks env (jwks_uri c) = Inr data"
    and "keys data = Some ks"
  shows "\<exists>entries. pem_entries (jwkToPem env) ks = Inr entries \<and> pems = new_Map entries"
  using assms by (auto simp: getJWKs_def split: sum.splits)

lemma getJWKs_no_verify: "verify_calls (snd (getJWKs env svc)) = []"
  by (simp add: getJWKs_def split: option.splits sum.splits)

lemma getJWKs_before_discovery:
  "config svc = None \<Longrightarrow> getJWKs env svc = (Inl (TypeError ''jwks_uri''), [])"
  by (simp add: getJWKs_def)

lemma demo_keys_pem:
  "demo_jwkToPem key_A = Inr pem_A" "demo_jwkToPem key_B = Inr pem_B"
  "demo_jwkToPem key_C = Inr pem_C"
  by (simp_all add: demo_jwkToPem_def key_A_def key_B_def key_C_def pem_A_def pem_B_def
      pem_C_def)

lemma getJWKs_demo:
  "getJWKs demo_env demo_service =
     (Inr (new_Map [(''kid1'', pem_A), (''kid2'', pem_B)]),
      [HttpLoadJSON (Some ''https://idp.example/realms/demo/certs'')])"
  by (simp add: getJWKs_def demo_env_def demo_service_def fresh_service_def
      demo_config_def demo_keys_pem) (simp add: key_A_def key_B_def)


lemma getJWKs_duplicate:
  "getJWKs env_duplicate_kid demo_service =
     (Inr (new_Map [(''kid1'', pem_A), (''kid2'', pem_B), (''kid1'', pem_C)]),
      [HttpLoadJSON (Some ''https://idp.example/realms/demo/certs'')])"
  by (simp add: getJWKs_def env_duplicate_kid_def demo_env_def demo_service_def
      fresh_service_def demo_config_def demo_keys_pem)
     (simp add: key_A_def key_B_def key_C_def)

lemma demo_pems_kid1: "new_Map [(''kid1'', pem_A), (''kid2'', pem_B)] ''kid1'' = Some pem_A"
  by (simp add: new_Map_def)

lemma demo_pems_kid2: "new_Map [(''kid1'', pem_A), (''kid2'', pem_B)] ''kid2'' = Some pem_B"
  by (simp add: new_Map_def)

lemma demo_pems_kid3: "new_Map [(''kid1'', pem_A), (''kid2'', pem_B)] ''kid3'' = None"
  by (simp add: new_Map_def)

lemma demo_service_config: "config demo_service = Some demo_config"
  by (simp add: demo_service_def)

subsection \<open>Token verification\<close>

lemma verifyToken_known_kid:
  assumes "getJWKs env svc = (Inr pems, tr)" and "pems key_id = Some pem"
    and "config svc = Some c"
  shows "verifyToken env svc token key_id =
           (map_sum JwtError id (verify env token pem (Obj [(''issuer'', opt (issuer c))])),
            tr @ [JwtVerify token pem (Obj [(''issuer'', opt (issuer c))])])"
  using assms by (simp add: verifyToken_def Let_def split: sum.splits)

text \<open>
  Claim C10. For the key list \<open>ks\<close> of the fetched JWKS and a map returned by
  \<^verbatim>\<open>getJWKs\<close>: an identifier borne by one or more entries is bound to the PEM of the
  last of them, and it is with that PEM that \<^verbatim>\<open>verifyToken\<close> calls \<^verbatim>\<open>verify\<close>,
  whose answer it returns; an identifier borne by exactly one entry is bound to, and
  verified with, the PEM of that entry; an identifier borne by no entry is not in the
  map, and \<^verbatim>\<open>verifyToken\<close> rejects without a call to \<^verbatim>\<open>verify\<close>.
\<close>

theorem verifyToken_uses_last_kid:
  assumes "config svc = Some c" and "loadJSON_jwks env (jwks_uri c) = Inr data"
    and "keys data = Some ks" and "getJWKs env svc = (Inr pems, tr)"
  shows "(filter (\<lambda>k. kid k = i) ks \<noteq> [] \<longrightarrow>
            (\<exists>pem. jwkToPem env (last (filter (\<lambda>k. kid k = i) ks)) = Inr pem
                   \<and> pems i = Some pem
                   \<and> verifyToken env svc token i =
                       (map_sum JwtError id
                          (verify env token pem (Obj [(''issuer'', opt (issuer c))])),
                        tr @ [JwtVerify token pem (Obj [(''issuer'', opt (issuer c))])])))
       \<and> (filter (\<lambda>k. kid k = i) ks = [key] \<longrightarrow>
            (\<exists>pem. jwkToPem env key = Inr pem \<and> pems i = Some pem
                   \<and> verifyToken env svc token i =
                       (map_sum JwtError id
                          (verify env token pem (Obj [(''issuer'', opt (issuer c))])),
                        tr @ [JwtVerify token pem (Obj [(''issuer'', opt (issuer c))])])))
       \<and> (filter (\<lambda>k. kid k = i) ks = [] \<longrightarrow>
            pems i = None
            \<and> verifyToken env svc token i =
                (Inl (UnauthorizedException
                        ''Authorization header contains an invalid JWT token.''), tr))"
proof -
  from getJWKs_Inr [OF assms(4) assms(1) assms(2) assms(3)] obtain entries where
    e: "pem_entries (jwkToPem env) ks = Inr entries" and p: "pems = new_Map entries"
    by blast
  have known: "pems i = Some pem \<Longrightarrow>
      verifyToken env svc token i =
        (map_sum JwtError id (verify env token pem (Obj [(''issuer'', opt (issuer c))])),
         tr @ [JwtVerify token pem (Obj [(''issuer'', opt (issuer c))])])" for pem
    by (rule verifyToken_known_kid [OF assms(4) _ assms(1)])
  have one: "filter (\<lambda>k. kid k = i) ks \<noteq> [] \<longrightarrow>
      (\<exists>pem. jwkToPem env (last (filter (\<lambda>k. kid k = i) ks)) = Inr pem
             \<and> pems i = Some pem
             \<and> verifyToken env svc token i =
                 (map_sum JwtError id
                    (verify env token pem (Obj [(''issuer'', opt (issuer c))])),
                  tr @ [JwtVerify token pem (Obj [(''issuer'', opt (issuer c))])]))"
  proof
    assume "filter (\<lambda>k. kid k = i) ks \<noteq> []"
    from new_Map_last [OF e this] p obtain pem where
      l: "jwkToPem env (last (filter (\<lambda>k. kid k = i) ks)) = Inr pem" and m: "pems i = Some pem"
      by auto
    from l m known [OF m]
    show "\<exists>pem. jwkToPem env (last (filter (\<lambda>k. kid k = i) ks)) = Inr pem
             \<and> pems i = Some pem
             \<and> verifyToken env svc token i =
                 (map_sum JwtError id
                    (verify env token pem (Obj [(''issuer'', opt (issuer c))])),
                  tr @ [JwtVerify token pem (Obj [(''issuer'', opt (issuer c))])])"
      by blast
  qed
  have two: "filter (\<lambda>k. kid k = i) ks = [key] \<longrightarrow>
      (\<exists>pem. jwkToPem env key = Inr pem \<and> pems i = Some pem
             \<and> verifyToken env svc token i =
                 (map_sum JwtError id
                    (verify env token pem (Obj [(''issuer'', opt (issuer c))])),
                  tr @ [JwtVerify token pem (Obj [(''issuer'', opt (issuer c))])]))"
  proof
    assume f: "filter (\<lambda>k. kid k = i) ks = [key]"
    then have "filter (\<lambda>k. kid k = i) ks \<noteq> []" by simp
    from new_Map_last [OF e this] f p obtain pem where
      l: "jwkToPem env key = Inr pem" and m: "pems i = Some pem"
      by auto
    from l m known [OF m]
    show "\<exists>pem. jwkToPem env key = Inr pem \<and> pems i = Some pem
             \<and> verifyToken env svc token i =
                 (map_sum JwtError id
                    (verify env token pem (Obj [(''issuer'', opt (issuer c))])),
                  tr @ [JwtVerify token pem (Obj [(''issuer'', opt (issuer c))])])"
      by blast
  qed
  have three: "filter (\<lambda>k. kid k = i) ks = [] \<longrightarrow>
      pems i = None
      \<and> verifyToken env svc token i =
          (Inl (UnauthorizedException
                  ''Authorization header contains an invalid JWT token.''), tr)"
  proof
    assume "filter (\<lambda>k. kid k = i) ks = []"
    from new_Map_absent [OF e this] p have n: "pems i = None" by simp
    with assms(4) show "pems i = None
      \<and> verifyToken env svc token i =
          (Inl (UnauthorizedException
                  ''Authorization header contains an invalid JWT token.''), tr)"
      by (simp add: verifyToken_def)
  qed
  from one two three show ?thesis by simp
qed

lemma demo_verify_rs256_demo_under_C:
  "verify env_duplicate_kid ''rs256.demo'' pem_C (Obj [(''issuer'', opt (issuer demo_config))])
     = Inl (JsonWebTokenError ''invalid signature'')"
  by (simp add: env_duplicate_kid_def demo_env_def jsonwebtoken_verify_def demo_library_def
      demo_read_token_def signature_check_def allowed_algorithms_def default_algorithms_def
      PUB_KEY_ALGS_def demo_jws_verify_def demo_config_def pem_A_def pem_C_def)

theorem verifyToken_uses_last_kid_witness:
  "getJWKs env_duplicate_kid demo_service =
     (Inr (new_Map [(''kid1'', pem_A), (''kid2'', pem_B), (''kid1'', pem_C)]),
      [HttpLoadJSON (Some ''https://idp.example/realms/demo/certs'')])
   \<and> filter (\<lambda>k. kid k = ''kid1'') [key_A, key_B, key_C] = [key_A, key_C]
   \<and> jwkToPem env_duplicate_kid key_C = Inr pem_C
   \<and> new_Map [(''kid1'', pem_A), (''kid2'', pem_B), (''kid1'', pem_C)] ''kid1'' = Some pem_C
   \<and> verifyToken env_duplicate_kid demo_service ''rs256.demo'' ''kid1'' =
       (Inl (JwtError (JsonWebTokenError ''invalid signature'')),
        [HttpLoadJSON (Some ''https://idp.example/realms/demo/certs''),
         JwtVerify ''rs256.demo'' pem_C
           (Obj [(''issuer'', Str ''https://idp.example/realms/demo'')])])"
proof -
  have l: "loadJSON_jwks env_duplicate_kid (jwks_uri demo_config)
             = Inr \<lparr>keys = Some [key_A, key_B, key_C]\<rparr>"
    by (simp add: env_duplicate_kid_def demo_env_def)
  have k: "keys \<lparr>keys = Some [key_A, key_B, key_C]\<rparr> = Some [key_A, key_B, key_C]"
    by simp
  have f: "filter (\<lambda>k. kid k = ''kid1'') [key_A, key_B, key_C] = [key_A, key_C]"
    by (simp add: key_A_def key_B_def key_C_def)
  have j: "jwkToPem env_duplicate_kid key_C = Inr pem_C"
    by (simp add: env_duplicate_kid_def demo_env_def demo_keys_pem)
  have i: "opt (issuer demo_config) = Str ''https://idp.example/realms/demo''"
    by (simp add: demo_config_def)
  from verifyToken_uses_last_kid
    [OF demo_service_config l k getJWKs_duplicate, of "''kid1''" "''rs256.demo''"]
    f j i getJWKs_duplicate demo_verify_rs256_demo_under_C
  show ?thesis by auto
qed

lemma verify_calls_append: "verify_calls (tr @ tr') = verify_calls tr @ verify_calls tr'"
  by (induction tr rule: verify_calls.induct) simp_all

text \<open>
  Claim C1. When the key map that \<^verbatim>\<open>getJWKs\<close> built from the fetched JWKS has no
  entry for the key id, \<^verbatim>\<open>verifyToken\<close> rejects with the UnauthorizedException,
  whatever the token and whatever \<^verbatim>\<open>verify\<close> would answer, and \<^verbatim>\<open>verify\<close> is not
  called.
\<close>

theorem verifyToken_unknown_kid:
  assumes "getJWKs env svc = (Inr pems, tr)" and "pems key_id = None"
  shows "fst (verifyToken env svc token key_id) =
           Inl (UnauthorizedException ''Authorization header contains an invalid JWT token.'')
       \<and> verify_calls (snd (verifyToken env svc token key_id)) = []"
proof -
  have "verify_calls tr = []"
    using getJWKs_no_verify [of env svc] assms(1) by simp
  with assms show ?thesis
    by (simp add: verifyToken_def)
qed

theorem verifyToken_unknown_kid_witness:
  "getJWKs demo_env demo_service =
     (Inr (new_Map [(''kid1'', pem_A), (''kid2'', pem_B)]),
      [HttpLoadJSON (Some ''https://idp.example/realms/demo/certs'')])
   \<and> new_Map [(''kid1'', pem_A), (''kid2'', pem_B)] ''kid3'' = None
   \<and> fst (verifyToken demo_env demo_service ''rs256.demo'' ''kid3'') =
        Inl (UnauthorizedException ''Authorization header contains an invalid JWT token.'')
   \<and> verify_calls (snd (verifyToken demo_env demo_service ''rs256.demo'' ''kid3'')) = []"
  using verifyToken_unknown_kid [OF getJWKs_demo demo_pems_kid3, of "''rs256.demo''"]
    getJWKs_demo demo_pems_kid3
  by simp

subsection \<open>What verify does with the options of verifyToken\<close>

lemma has_substring_nonempty: "has_substring s p \<Longrightarrow> p \<noteq> [] \<Longrightarrow> s \<noteq> []"
  by (cases s) auto

lemma public_key_pem_nonempty: "is_public_key_pem pem \<Longrightarrow> pem \<noteq> []"
  by (auto simp: is_public_key_pem_def dest: has_substring_nonempty)

lemma default_algorithms_public:
  "is_public_key_pem pem \<Longrightarrow> set (default_algorithms pem) \<subseteq> set PUB_KEY_ALGS"
  by (auto simp: is_public_key_pem_def default_algorithms_def PUB_KEY_ALGS_def
      RSA_KEY_ALGS_def)

lemma issuer_options_no_algorithms: "property (Obj [(''issuer'', v)]) ''algorithms'' = Undefined"
  by simp

lemma issuer_options_issuer: "property (Obj [(''issuer'', v)]) ''issuer'' = v"
  by simp

lemma verify_unexpected_algorithm:
  assumes "is_public_key_pem pem" and "read_token lib token = Inr t"
    and "\<not> algorithm_allowed (header_alg t) PUB_KEY_ALGS"
  shows "jsonwebtoken_verify lib token pem (Obj [(''issuer'', v)]) =
           Inl (JsonWebTokenError
                  (if has_signature t then ''invalid algorithm''
                   else ''jwt signature is required''))"
proof (cases "has_signature t")
  case False
  with assms(2) public_key_pem_nonempty [OF assms(1)] show ?thesis
    by (simp add: jsonwebtoken_verify_def signature_check_def)
next
  case True
  have "\<not> algorithm_allowed (header_alg t) (default_algorithms pem)"
    using assms(3) default_algorithms_public [OF assms(1)]
    by (cases "header_alg t") auto
  with True assms(2) public_key_pem_nonempty [OF assms(1)] show ?thesis
    by (simp add: jsonwebtoken_verify_def signature_check_def allowed_algorithms_def
        issuer_options_no_algorithms del: property.simps)
qed


text \<open>
  Claim C2. \<^verbatim>\<open>verifyToken\<close> passes \<^verbatim>\<open>verify\<close> the issuer and no list of
  algorithms, so \<^verbatim>\<open>verify\<close> allows the algorithms that go with the key. With the
  PEM of a public key, as \<^verbatim>\<open>jwkToPem\<close> returns, these are asymmetric ones: a token
  whose header names an algorithm outside \<open>PUB_KEY_ALGS\<close>, or none, is rejected
  before its signature is looked at, whatever \<^verbatim>\<open>jws.verify\<close> would say of it.
\<close>

theorem verifyToken_rejects_unexpected_algorithm:
  assumes "getJWKs env svc = (Inr pems, tr)" and "pems key_id = Some pem"
    and "config svc = Some c"
    and "verify env = jsonwebtoken_verify lib"
    and "is_public_key_pem pem"
    and "read_token lib token = Inr t"
    and "\<not> algorithm_allowed (header_alg t) PUB_KEY_ALGS"
  shows "verifyToken env svc token key_id =
           (Inl (JwtError (JsonWebTokenError
                   (if has_signature t then ''invalid algorithm''
                    else ''jwt signature is required''))),
            tr @ [JwtVerify token pem (Obj [(''issuer'', opt (issuer c))])])"
  using verifyToken_known_kid [OF assms(1) assms(2) assms(3), of token]
    verify_unexpected_algorithm [OF assms(5) assms(6) assms(7), of "opt (issuer c)"]
    assms(4)
  by simp

text \<open>The options of \<^verbatim>\<open>verifyToken\<close> name no algorithms: the default of \<^verbatim>\<open>verify\<close> applies.\<close>

lemma verifyToken_options_name_no_algorithms:
  "\<not> pins_algorithms (Obj [(''issuer'', opt (issuer c))])"
  by simp

lemma pem_A_public: "is_public_key_pem pem_A"
  by (simp add: is_public_key_pem_def pem_A_def)

theorem verifyToken_rejects_unexpected_algorithm_witness:
  "verify demo_env = jsonwebtoken_verify demo_library
   \<and> is_public_key_pem pem_A
   \<and> header_alg (projr (read_token demo_library ''hs256.forged'')) = Some ''HS256''
   \<and> jws_verify demo_library ''hs256.forged'' (Some ''HS256'') pem_A = Inr True
   \<and> verifyToken demo_env demo_service ''hs256.forged'' ''kid1'' =
       (Inl (JwtError (JsonWebTokenError ''invalid algorithm'')),
        [HttpLoadJSON (Some ''https://idp.example/realms/demo/certs''),
         JwtVerify ''hs256.forged'' pem_A
           (Obj [(''issuer'', Str ''https://idp.example/realms/demo'')])])"
proof -
  have v: "verify demo_env = jsonwebtoken_verify demo_library"
    by (simp add: demo_env_def)
  have r: "read_token demo_library ''hs256.forged'' =
      Inr \<lparr>header_alg = Some ''HS256'', has_signature = True, payload_nbf = Absent,
           payload_exp = Seconds 2000000000,
           payload_iss = Some ''https://idp.example/realms/demo'',
           payload = Obj [(''iss'', Str ''https://idp.example/realms/demo'')]\<rparr>"
    by (simp add: demo_library_def demo_read_token_def)
  have a: "\<not> algorithm_allowed
              (header_alg \<lparr>header_alg = Some ''HS256'', has_signature = True,
                 payload_nbf = Absent, payload_exp = Seconds 2000000000,
                 payload_iss = Some ''https://idp.example/realms/demo'',
                 payload = Obj [(''iss'', Str ''https://idp.example/realms/demo'')]\<rparr>)
              PUB_KEY_ALGS"
    by (simp add: PUB_KEY_ALGS_def)
  have j: "jws_verify demo_library ''hs256.forged'' (Some ''HS256'') pem_A = Inr True"
    by (simp add: demo_library_def demo_jws_verify_def)
  have i: "opt (issuer demo_config) = Str ''https://idp.example/realms/demo''"
    by (simp add: demo_config_def)
  from verifyToken_rejects_unexpected_algorithm
    [OF getJWKs_demo demo_pems_kid1 demo_service_config v pem_A_public r a]
    v pem_A_public r j i
  show ?thesis by simp
qed





text \<open>
  Claim C4 at a failing input. The service is the one the constructor returns, before
  discovery has assigned \<open>config\<close>: \<^verbatim>\<open>getJWKs\<close> reads \<^verbatim>\<open>jwks_uri\<close> from the
  undefined \<open>config\<close> inside the argument of \<^verbatim>\<open>ok\<close>, and \<^verbatim>\<open>verifyToken\<close> rejects
  with the TypeError of that read instead of the assertion's message.
\<close>

theorem verifyToken_before_discovery:
  "constructor demo_settings = Inr fresh_service
   \<and> config fresh_service = None
   \<and> verifyToken demo_env fresh_service ''rs256.demo'' ''kid1'' =
       (Inl (TypeError ''jwks_uri''), [])"
  by (simp add: constructor_def demo_settings_def fresh_service_def verifyToken_def
      getJWKs_def)

text \<open>With a discovery document that lacks \<^verbatim>\<open>jwks_uri\<close> the assertion does report.\<close>

lemma getJWKs_without_jwks_uri:
  assumes "config svc = Some c" and "\<not> truthy (jwks_uri c)"
  shows "\<exists>message. getJWKs env svc = (Inl (AssertionError message), [])"
  using assms by (simp add: getJWKs_def ok_if)

subsection \<open>Token requests\<close>

lemma generateToken_discovered:
  assumes "config svc = Some c"
  shows "generateToken env svc tokenData =
           (map_sum Transport id
              (post_Token env (token_endpoint c) (Str (token_request_body env svc tokenData))
                 token_request_options),
            [ConsoleLog (token_request_body env svc tokenData),
             HttpPost (token_endpoint c) (Str (token_request_body env svc tokenData))
               token_request_options])"
  using assms by (simp add: generateToken_def Let_def split: sum.splits)

text \<open>Object literals with a spread.\<close>

lemma set_property_new: "k \<notin> fst ` set ps \<Longrightarrow> set_property k v ps = ps @ [(k, v)]"
  by (induction ps) auto

lemma set_property_keys:
  "map fst (set_property k v ps) =
     (if k \<in> set (map fst ps) then map fst ps else map fst ps @ [k])"
  by (induction ps) force+

lemma set_property_map_of: "map_of (set_property k v ps) = (map_of ps)(k \<mapsto> v)"
  by (induction ps) auto

lemma fold_set_property_distinct:
  "distinct (map fst (obj @ ps)) \<Longrightarrow>
   fold (\<lambda>(k, v) obj. set_property k v obj) ps obj = obj @ ps"
proof (induction ps arbitrary: obj)
  case Nil
  show ?case by simp
next
  case (Cons p ps)
  obtain k v where p: "p = (k, v)" by (cases p)
  from Cons.prems p have new: "k \<notin> fst ` set obj" by auto
  from Cons.prems p have "distinct (map fst ((obj @ [(k, v)]) @ ps))" by simp
  from Cons.IH [OF this] new p show ?case
    by (simp add: set_property_new)
qed

lemma object_literal_spread:
  assumes "distinct (map fst td)"
  shows "object_literal (td @ [(k1, v1), (k2, v2), (k3, v3)]) =
           set_property k3 v3 (set_property k2 v2 (set_property k1 v1 td))"
  using fold_set_property_distinct [of "[]" td] assms
  by (simp add: object_literal_def)

lemma set_property_distinct:
  "distinct (map fst ps) \<Longrightarrow> distinct (map fst (set_property k v ps))"
  by (simp add: set_property_keys)

text \<open>
  The body of the password grant, for every object passed as \<^verbatim>\<open>tokenData\<close>: the
  grant type and the credentials of the user client are set last, so they hold
  whatever the object says of them; every other property is the caller's; the keys
  come in the caller's order, followed by those of the three that the caller did not
  have.
\<close>

lemma password_grant_fields:
  assumes "distinct (map fst td)"
  shows "\<exists>fields.
           token_request_body env svc (Some td) = stringify env (Obj fields)
         \<and> distinct (map fst fields)
         \<and> map fst fields =
             map fst td
             @ filter (\<lambda>k. k \<notin> set (map fst td)) [''grant_type'', ''client_id'', ''client_secret'']
         \<and> map_of fields ''grant_type'' = Some (Str ''password'')
         \<and> map_of fields ''client_id'' = Some (Str (client_id (clientUser svc)))
         \<and> map_of fields ''client_secret'' = Some (opt (client_secret (clientUser svc)))
         \<and> (\<forall>k. k \<noteq> ''grant_type'' \<and> k \<noteq> ''client_id'' \<and> k \<noteq> ''client_secret''
                \<longrightarrow> map_of fields k = map_of td k)"
proof -
  let ?fields = "set_property ''client_secret'' (opt (client_secret (clientUser svc)))
                   (set_property ''client_id'' (Str (client_id (clientUser svc)))
                      (set_property ''grant_type'' (Str ''password'') td))"
  have body: "token_request_body env svc (Some td) = stringify env (Obj ?fields)"
    by (simp add: token_request_body_def object_literal_spread [OF assms])
  have d: "distinct (map fst ?fields)"
    by (intro set_property_distinct assms)
  have order: "map fst ?fields =
      map fst td
      @ filter (\<lambda>k. k \<notin> set (map fst td)) [''grant_type'', ''client_id'', ''client_secret'']"
    by (simp add: set_property_keys)
  have set_last: "map_of ?fields ''grant_type'' = Some (Str ''password'')"
    "map_of ?fields ''client_id'' = Some (Str (client_id (clientUser svc)))"
    "map_of ?fields ''client_secret'' = Some (opt (client_secret (clientUser svc)))"
    by (simp_all add: set_property_map_of)
  have rest: "\<forall>k. k \<noteq> ''grant_type'' \<and> k \<noteq> ''client_id'' \<and> k \<noteq> ''client_secret''
                \<longrightarrow> map_of ?fields k = map_of td k"
    by (simp add: set_property_map_of)
  from body d order set_last rest show ?thesis by blast
qed

text \<open>
  Claim C5. With a discovery document cached, \<^verbatim>\<open>generateToken()\<close> prints and posts
  the stringified client-credentials grant of the admin client. Given an object, it
  prints and posts the stringified password grant: the properties of the object with
  the grant type \<^verbatim>\<open>password\<close> and the id and secret of the user client set over
  them; for the object \<^verbatim>\<open>{username, password}\<close> these are the five properties
  \<^verbatim>\<open>username\<close>, \<^verbatim>\<open>password\<close>, \<^verbatim>\<open>grant_type\<close>, \<^verbatim>\<open>client_id\<close>,
  \<^verbatim>\<open>client_secret\<close>. Either body goes in one POST to the cached token endpoint with
  the form content type.
\<close>

theorem generateToken_requests:
  assumes "config svc = Some c" and "distinct (map fst td)"
  shows "snd (generateToken env svc None) =
           [ConsoleLog (stringify env
              (Obj [(''grant_type'', Str ''client_credentials''),
                    (''client_id'', Str (client_id (clientAdmin svc))),
                    (''client_secret'', opt (client_secret (clientAdmin svc)))])),
            HttpPost (token_endpoint c)
              (Str (stringify env
                 (Obj [(''grant_type'', Str ''client_credentials''),
                       (''client_id'', Str (client_id (clientAdmin svc))),
                       (''client_secret'', opt (client_secret (clientAdmin svc)))])))
              (Obj [(''headers'',
                     Obj [(''Content-Type'', Str ''application/x-www-form-urlencoded'')]),
                    (''responseType'', Str ''json'')])]
       \<and> (\<exists>fields.
             snd (generateToken env svc (Some td)) =
               [ConsoleLog (stringify env (Obj fields)),
                HttpPost (token_endpoint c) (Str (stringify env (Obj fields)))
                  (Obj [(''headers'',
                         Obj [(''Content-Type'', Str ''application/x-www-form-urlencoded'')]),
                        (''responseType'', Str ''json'')])]
           \<and> distinct (map fst fields)
           \<and> map fst fields =
               map fst td
               @ filter (\<lambda>k. k \<notin> set (map fst td))
                   [''grant_type'', ''client_id'', ''client_secret'']
           \<and> map_of fields ''grant_type'' = Some (Str ''password'')
           \<and> map_of fields ''client_id'' = Some (Str (client_id (clientUser svc)))
           \<and> map_of fields ''client_secret'' = Some (opt (client_secret (clientUser svc)))
           \<and> (\<forall>k. k \<noteq> ''grant_type'' \<and> k \<noteq> ''client_id'' \<and> k \<noteq> ''client_secret''
                  \<longrightarrow> map_of fields k = map_of td k))
       \<and> (td = [(''username'', Str u), (''password'', Str p)] \<longrightarrow>
             snd (generateToken env svc (Some td)) =
               [ConsoleLog (stringify env
                  (Obj [(''username'', Str u),
                        (''password'', Str p),
                        (''grant_type'', Str ''password''),
                        (''client_id'', Str (client_id (clientUser svc))),
                        (''client_secret'', opt (client_secret (clientUser svc)))])),
                HttpPost (token_endpoint c)
                  (Str (stringify env
                     (Obj [(''username'', Str u),
                           (''password'', Str p),
                           (''grant_type'', Str ''password''),
                           (''client_id'', Str (client_id (clientUser svc))),
                           (''client_secret'', opt (client_secret (clientUser svc)))])))
                  (Obj [(''headers'',
                         Obj [(''Content-Type'', Str ''application/x-www-form-urlencoded'')]),
                        (''responseType'', Str ''json'')])])"
proof -
  have admin: "snd (generateToken env svc None) =
           [ConsoleLog (stringify env
              (Obj [(''grant_type'', Str ''client_credentials''),
                    (''client_id'', Str (client_id (clientAdmin svc))),
                    (''client_secret'', opt (client_secret (clientAdmin svc)))])),
            HttpPost (token_endpoint c)
              (Str (stringify env
                 (Obj [(''grant_type'', Str ''client_credentials''),
                       (''client_id'', Str (client_id (clientAdmin svc))),
                       (''client_secret'', opt (client_secret (clientAdmin svc)))])))
              (Obj [(''headers'',
                     Obj [(''Content-Type'', Str ''application/x-www-form-urlencoded'')]),
                    (''responseType'', Str ''json'')])]"
    by (simp add: generateToken_discovered [OF assms(1)] token_request_body_def
        token_request_options_def)
  from password_grant_fields [OF assms(2), of env svc] obtain fields where
    body: "token_request_body env svc (Some td) = stringify env (Obj fields)"
    and rest: "distinct (map fst fields)"
      "map fst fields =
         map fst td
         @ filter (\<lambda>k. k \<notin> set (map fst td)) [''grant_type'', ''client_id'', ''client_secret'']"
      "map_of fields ''grant_type'' = Some (Str ''password'')"
      "map_of fields ''client_id'' = Some (Str (client_id (clientUser svc)))"
      "map_of fields ''client_secret'' = Some (opt (client_secret (clientUser svc)))"
      "\<forall>k. k \<noteq> ''grant_type'' \<and> k \<noteq> ''client_id'' \<and> k \<noteq> ''client_secret''
                  \<longrightarrow> map_of fields k = map_of td k"
    by blast
  have "snd (generateToken env svc (Some td)) =
               [ConsoleLog (stringify env (Obj fields)),
                HttpPost (token_endpoint c) (Str (stringify env (Obj fields)))
                  (Obj [(''headers'',
                         Obj [(''Content-Type'', Str ''application/x-www-form-urlencoded'')]),
                        (''responseType'', Str ''json'')])]"
    by (simp add: generateToken_discovered [OF assms(1)] body token_request_options_def)
  with rest have user: "\<exists>fields.
             snd (generateToken env svc (Some td)) =
               [ConsoleLog (stringify env (Obj fields)),
                HttpPost (token_endpoint c) (Str (stringify env (Obj fields)))
                  (Obj [(''headers'',
                         Obj [(''Content-Type'', Str ''application/x-www-form-urlencoded'')]),
                        (''responseType'', Str ''json'')])]
           \<and> distinct (map fst fields)
           \<and> map fst fields =
               map fst td
               @ filter (\<lambda>k. k \<notin> set (map fst td))
                   [''grant_type'', ''client_id'', ''client_secret'']
           \<and> map_of fields ''grant_type'' = Some (Str ''password'')
           \<and> map_of fields ''client_id'' = Some (Str (client_id (clientUser svc)))
           \<and> map_of fields ''client_secret'' = Some (opt (client_secret (clientUser svc)))
           \<and> (\<forall>k. k \<noteq> ''grant_type'' \<and> k \<noteq> ''client_id'' \<and> k \<noteq> ''client_secret''
                  \<longrightarrow> map_of fields k = map_of td k)"
    by blast
  have plain: "td = [(''username'', Str u), (''password'', Str p)] \<longrightarrow>
             snd (generateToken env svc (Some td)) =
               [ConsoleLog (stringify env
                  (Obj [(''username'', Str u),
                        (''password'', Str p),
                        (''grant_type'', Str ''password''),
                        (''client_id'', Str (client_id (clientUser svc))),
                        (''client_secret'', opt (client_secret (clientUser svc)))])),
                HttpPost (token_endpoint c)
                  (Str (stringify env
                     (Obj [(''username'', Str u),
                           (''password'', Str p),
                           (''grant_type'', Str ''password''),
                           (''client_id'', Str (client_id (clientUser svc))),
                           (''client_secret'', opt (client_secret (clientUser svc)))])))
                  (Obj [(''headers'',
                         Obj [(''Content-Type'', Str ''application/x-www-form-urlencoded'')]),
                        (''responseType'', Str ''json'')])]"
    by (simp add: generateToken_discovered [OF assms(1)] token_request_body_def
        token_request_options_def object_literal_def)
  from admin user plain show ?thesis by blast
qed

theorem generateToken_requests_witness:
  "config demo_service = Some demo_config
   \<and> distinct (map fst demo_login)
   \<and> demo_login = [(''username'', Str ''alice''), (''password'', Str ''wonderland'')]
   \<and> snd (generateToken demo_env demo_service None) =
       [ConsoleLog
          ''grant_type=client_credentials&client_id=admin-cli&client_secret=admin-secret'',
        HttpPost (Some ''https://idp.example/realms/demo/token'')
          (Str ''grant_type=client_credentials&client_id=admin-cli&client_secret=admin-secret'')
          (Obj [(''headers'',
                 Obj [(''Content-Type'', Str ''application/x-www-form-urlencoded'')]),
                (''responseType'', Str ''json'')])]
   \<and> snd (generateToken demo_env demo_service (Some demo_login)) =
       [ConsoleLog
          ''username=alice&password=wonderland&grant_type=password&client_id=web&client_secret=web-secret'',
        HttpPost (Some ''https://idp.example/realms/demo/token'')
          (Str ''username=alice&password=wonderland&grant_type=password&client_id=web&client_secret=web-secret'')
          (Obj [(''headers'',
                 Obj [(''Content-Type'', Str ''application/x-www-form-urlencoded'')]),
                (''responseType'', Str ''json'')])]"
proof -
  have d: "distinct (map fst demo_login)"
    by (simp add: demo_login_def)
  have l: "demo_login = [(''username'', Str ''alice''), (''password'', Str ''wonderland'')]"
    by (simp add: demo_login_def)
  from generateToken_requests
    [OF demo_service_config d, of demo_env "''alice''" "''wonderland''"]
    demo_service_config d l
  show ?thesis
    by (simp add: demo_env_def demo_service_def fresh_service_def demo_config_def)
qed

text \<open>An object that enumerates the password first is posted in that order.\<close>

lemma generateToken_reversed_login:
  "token_request_body demo_env demo_service (Some demo_login_reversed) =
     ''password=wonderland&username=alice&grant_type=password&client_id=web&client_secret=web-secret''"
  by (simp add: token_request_body_def object_literal_def demo_login_reversed_def
      demo_env_def demo_service_def fresh_service_def)

text \<open>
  Claim C6 at a failing input. The cached discovery document has no token endpoint:
  \<^verbatim>\<open>generateToken()\<close> raises no configuration error; it posts the grant to the
  undefined URL and rejects with what the HTTP client answers, here a transport error.
\<close>

theorem generateToken_without_token_endpoint:
  "map_option token_endpoint (config service_without_token_endpoint) = Some None
   \<and> generateToken demo_env service_without_token_endpoint None =
       (Inl (Transport (TransportError None ''Invalid URL'')),
        [ConsoleLog
           ''grant_type=client_credentials&client_id=admin-cli&client_secret=admin-secret'',
         HttpPost None
           (Str ''grant_type=client_credentials&client_id=admin-cli&client_secret=admin-secret'')
           (Obj [(''headers'',
                  Obj [(''Content-Type'', Str ''application/x-www-form-urlencoded'')]),
                 (''responseType'', Str ''json'')])])"
  by (simp add: generateToken_def token_request_body_def token_request_options_def Let_def
      service_without_token_endpoint_def fresh_service_def demo_config_def demo_env_def)

text \<open>
  The same holds of every cached document and both grants: the token endpoint, absent,
  empty or not, is the URL of exactly one POST. With no document cached the read of
  \<^verbatim>\<open>token_endpoint\<close> throws, and no request is made.
\<close>

lemma generateToken_no_endpoint_check:
  assumes "config svc = Some c"
  shows "filter is_http (snd (generateToken env svc tokenData)) =
           [HttpPost (token_endpoint c) (Str (token_request_body env svc tokenData))
              token_request_options]"
  by (simp add: generateToken_discovered [OF assms])

lemma generateToken_before_discovery:
  assumes "config svc = None"
  shows "fst (generateToken env svc tokenData) = Inl (TypeError ''token_endpoint'')
       \<and> filter is_http (snd (generateToken env svc tokenData)) = []"
  using assms by (simp add: generateToken_def Let_def)

subsection \<open>Introspection\<close>

text \<open>
  Claim C7 at a failing input. Before discovery has assigned \<open>config\<close>,
  \<^verbatim>\<open>introspectToken("abc")\<close> makes no request, but what it rejects with is the
  TypeError of reading \<^verbatim>\<open>introspection_endpoint\<close> from the undefined \<open>config\<close>,
  not the AssertionError of \<^verbatim>\<open>ok\<close>.
\<close>

theorem introspectToken_before_discovery:
  "constructor demo_settings = Inr fresh_service
   \<and> config fresh_service = None
   \<and> introspectToken demo_env fresh_service ''abc'' =
       (Inl (TypeError ''introspection_endpoint''), [])"
  by (simp add: constructor_def demo_settings_def introspectToken_def fresh_service_def)

text \<open>
  A cached document without the endpoint is reported by the assertion; in neither case
  is a request made.
\<close>

lemma introspectToken_without_endpoint:
  assumes "config svc = Some c" and "\<not> truthy (introspection_endpoint c)"
  shows "\<exists>message. introspectToken env svc token = (Inl (AssertionError message), [])"
  using assms by (simp add: introspectToken_def ok_if)

lemma introspectToken_no_request_without_endpoint:
  assumes "config svc = None
           \<or> (\<exists>c. config svc = Some c \<and> \<not> truthy (introspection_endpoint c))"
  shows "isl (fst (introspectToken env svc token)) \<and> snd (introspectToken env svc token) = []"
  using assms by (auto simp: introspectToken_def ok_if)

subsection \<open>User registration\<close>

text \<open>
  With a document cached and a token granted, \<^verbatim>\<open>registerUser\<close> makes two requests:
  the client-credentials token request, then the POST of the user representation to
  the admin API with the granted token in the Authorization header.
\<close>

lemma registerUser_requests:
  assumes "config svc = Some c"
    and "post_Token env (token_endpoint c) (Str (token_request_body env svc None))
           token_request_options = Inr t"
  shows "filter is_http (snd (registerUser env svc d)) =
           [HttpPost (token_endpoint c) (Str (token_request_body env svc None))
              token_request_options,
            HttpPost (Some (server_uri svc @ ''/admin/realms/'' @ realm svc @ ''/users''))
              (Obj [(''firstName'', Str (firstName d)),
                    (''lastName'', Str (lastName d)),
                    (''email'', Str (email d)),
                    (''enabled'', Bool True),
                    (''username'', Str (email d)),
                    (''credentials'',
                     Arr [Obj [(''type'', Str ''password''),
                               (''value'', Str (password d)),
                               (''temporary'', Bool False)]])])
              (Obj [(''headers'',
                     Obj [(''Content-Type'', Str ''application/json''),
                          (''Authorization'', Str (token_type t @ '' '' @ access_token t))]),
                    (''responseType'', Str ''json'')])]"
  using assms
  by (simp add: registerUser_def generateToken_discovered [OF assms(1)]
      user_representation_def Let_def split: sum.splits)

text \<open>An error of the admin API is logged, then thrown again.\<close>

lemma registerUser_provider_error:
  assumes "config svc = Some c"
    and "post_Token env (token_endpoint c) (Str (token_request_body env svc None))
           token_request_options = Inr t"
    and "post_unknown env (Some (server_uri svc @ ''/admin/realms/'' @ realm svc @ ''/users''))
           (user_representation d)
           (Obj [(''headers'',
                  Obj [(''Content-Type'', Str ''application/json''),
                       (''Authorization'', Str (token_type t @ '' '' @ access_token t))]),
                 (''responseType'', Str ''json'')]) = Inl e"
  shows "fst (registerUser env svc d) = Inl (Transport e)
       \<and> filter is_log_error (snd (registerUser env svc d)) = [LogError (Transport e)]"
  using assms
  by (simp add: registerUser_def generateToken_discovered [OF assms(1)] Let_def)

text \<open>A refused token request reaches the caller without passing the logger.\<close>

lemma registerUser_token_error_not_logged:
  assumes "config svc = Some c"
    and "post_Token env (token_endpoint c) (Str (token_request_body env svc None))
           token_request_options = Inl e"
  shows "fst (registerUser env svc d) = Inl (Transport e)
       \<and> filter is_log_error (snd (registerUser env svc d)) = []"
  using assms
  by (simp add: registerUser_def generateToken_discovered [OF assms(1)])

text \<open>
  Claim C8 at a failing input. The provider answers the token request with 401. The
  error reaches the caller of \<^verbatim>\<open>registerUser\<close>, and the trace holds the debug line,
  the printed body and the request, but no call of \<^verbatim>\<open>this.log.error\<close>:
  \<^verbatim>\<open>generateToken\<close> returns the promise of the POST unawaited, so its \<^verbatim>\<open>catch\<close>
  clause never sees the rejection, and \<^verbatim>\<open>registerUser\<close> awaits the token outside
  its own \<^verbatim>\<open>try\<close>.
\<close>

theorem registerUser_token_refused:
  "registerUser env_token_refused demo_service demo_user =
     (Inl (Transport (TransportError (Some 401) ''Unauthorized'')),
      [LogDebug ''Called registerUser'',
       ConsoleLog ''grant_type=client_credentials&client_id=admin-cli&client_secret=admin-secret'',
       HttpPost (Some ''https://idp.example/realms/demo/token'')
         (Str ''grant_type=client_credentials&client_id=admin-cli&client_secret=admin-secret'')
         (Obj [(''headers'',
                Obj [(''Content-Type'', Str ''application/x-www-form-urlencoded'')]),
               (''responseType'', Str ''json'')])])
   \<and> filter is_log_error (snd (registerUser env_token_refused demo_service demo_user)) = []"
  by (simp add: registerUser_def generateToken_def token_request_body_def
      token_request_options_def Let_def env_token_refused_def demo_env_def
      demo_service_def fresh_service_def demo_config_def)

end
